theory Spec2Isabelle
  imports Main "HOL-Library.Log_Nat"
begin

section \<open>Common Python notions\<close>

text \<open>
  A Python \<open>str\<close> is modelled as a HOL \<open>string\<close>: the character \<open>c\<close> stands for the code
  point \<open>of_char c\<close>, so the model covers the strings whose code points are below 256.
  On these, the regular expression class \<open>\d\<close> is exactly \<open>0-9\<close>.

  Exceptions are values of \<open>py_error\<close>; a function that can raise returns
  \<open>py_error + 'a\<close>, and a function that catches and prints returns what it printed.
\<close>

datatype py_error =
    KeyError string
  | ValueError
  | OverflowError
  | Exception string
  | EmptyListException string

definition str_error :: "py_error \<Rightarrow> string" where
  \<comment> \<open>\<open>str(exception)\<close>; for a \<open>KeyError\<close> the key in quotes (the keys raised here are the
      literals \<open>OID\<close>, \<open>Type\<close>, \<open>ReturnValue\<close> and enum names).\<close>
  "str_error e =
     (case e of
        KeyError k \<Rightarrow> [CHR 0x27] @ k @ [CHR 0x27]
      | ValueError \<Rightarrow> ''could not convert string to float''
      | OverflowError \<Rightarrow> ''cannot convert float infinity to integer''
      | Exception msg \<Rightarrow> msg
      | EmptyListException msg \<Rightarrow> msg)"

definition startswith :: "string \<Rightarrow> string \<Rightarrow> bool" where
  \<comment> \<open>\<open>s.startswith(p)\<close>\<close>
  "startswith s p = (take (length p) s = p)"

definition isdigit :: "char \<Rightarrow> bool" where
  \<comment> \<open>\<open>\d\<close> on code points below 256\<close>
  "isdigit c = (c \<in> set ''0123456789'')"

definition isletter :: "char \<Rightarrow> bool" where
  \<comment> \<open>\<open>[a-zA-Z]\<close>\<close>
  "isletter c = (c \<in> set ''abcdefghijklmnopqrstuvwxyzABCDEFGHIJKLMNOPQRSTUVWXYZ'')"

section \<open>Pipeline A: \<open>qa_device_simulator_to_snmpsim.py\<close>\<close>

subsection \<open>The \<open>OidType\<close> enumeration\<close>

text \<open>
  The members of the \<open>Enum\<close> class in declaration order. \<open>OidType[name]\<close> reads the
  member map, which holds every declared name, aliases of an earlier value included;
  \<open>ObjectIdentifier\<close> is commented out in the source and so is no member.
\<close>

definition OidType :: "(string \<times> int) list" where
  "OidType =
     [(''Integer32'', 2),
      (''OctetString'', 4),
      (''Null'', 5),
      (''ObjectId'', 6),
      (''IPAddress'', 64),
      (''IpAddress'', 64),
      (''Counter32'', 65),
      (''Gauge32'', 66),
      (''TimeTicks'', 67),
      (''Opaque'', 68),
      (''Counter64'', 70)]"

definition enum_getitem :: "(string \<times> int) list \<Rightarrow> string \<Rightarrow> py_error + int" where
  \<comment> \<open>\<open>enumType[name].value\<close>; an unknown name raises \<open>KeyError\<close>\<close>
  "enum_getitem enumType name =
     (case map_of enumType name of None \<Rightarrow> Inl (KeyError name) | Some v \<Rightarrow> Inr v)"

definition enumContainsName :: "(string \<times> int) list \<Rightarrow> string \<Rightarrow> bool" where
  "enumContainsName enumType name =
     (case enum_getitem enumType name of Inl _ \<Rightarrow> False | Inr _ \<Rightarrow> True)"

subsection \<open>The two record classes\<close>

text \<open>
  Fields carry a prefix because both classes have an \<open>oid\<close>. A value that may be
  Python's \<open>None\<close> is a \<open>string option\<close>.
\<close>

record SnmpsimRecord =
  rec_oid :: string
  rec_oidType :: int
  rec_value :: string

record QADeviceSimulatorDefinition =
  def_oid :: string
  def_type :: string
  def_returnValue :: string
  def_logOutput :: "string option"
  def_comment :: "string option"
  def_delay :: string
  def_save :: string
  def_skipOid :: string

definition QADeviceSimulatorDefinition_init ::
  "string \<Rightarrow> string \<Rightarrow> string \<Rightarrow> string option \<Rightarrow> string option \<Rightarrow>
   string option \<Rightarrow> string option \<Rightarrow> string option \<Rightarrow> QADeviceSimulatorDefinition" where
  \<comment> \<open>\<open>__init__\<close>: \<open>isinstance(x, str)\<close> holds exactly when \<open>x\<close> is not \<open>None\<close>\<close>
  "QADeviceSimulatorDefinition_init oid type returnValue logOutput comment delay save skipOid =
     \<lparr>def_oid = oid,
      def_type = type,
      def_returnValue = returnValue,
      def_logOutput = logOutput,
      def_comment = comment,
      def_delay = (case delay of Some s \<Rightarrow> s | None \<Rightarrow> ''NA''),
      def_save = (case save of Some s \<Rightarrow> s | None \<Rightarrow> ''NA''),
      def_skipOid = (case skipOid of Some s \<Rightarrow> s | None \<Rightarrow> ''NA'')\<rparr>"

subsection \<open>\<open>ConvertSimulationFile\<close>\<close>

fun convert_loop ::
  "QADeviceSimulatorDefinition list \<Rightarrow> SnmpsimRecord list \<Rightarrow> py_error + SnmpsimRecord list" where
  "convert_loop [] snmpsimRecords = Inr snmpsimRecords"
| "convert_loop (simulationRecord # rest) snmpsimRecords =
     (if enumContainsName OidType (def_type simulationRecord) then
        (case enum_getitem OidType (def_type simulationRecord) of
           Inl e \<Rightarrow> Inl e
         | Inr code \<Rightarrow>
             convert_loop rest
               (snmpsimRecords @
                  [\<lparr>rec_oid = def_oid simulationRecord,
                    rec_oidType = code,
                    rec_value = def_returnValue simulationRecord\<rparr>]))
      else
        Inl (Exception
               (''[ERROR]|ConvertSimulationFile|OID type not found for simulation record:OID:''
                @ def_oid simulationRecord @ '',OID Type:'' @ def_type simulationRecord)))"

definition ConvertSimulationFile ::
  "QADeviceSimulatorDefinition list \<Rightarrow> SnmpsimRecord list option \<times> string list" where
  \<comment> \<open>the returned list (\<open>None\<close> when the \<open>except\<close> branch ran and the function fell off
      its end) and the lines printed\<close>
  "ConvertSimulationFile listQADeviceSimulatorDefinition =
     (case convert_loop listQADeviceSimulatorDefinition [] of
        Inr snmpsimRecords \<Rightarrow> (Some snmpsimRecords, [])
      | Inl exception \<Rightarrow>
          (None, [''[ERROR]|ConvertSimulationFile|Exception:'' @ str_error exception]))"

subsection \<open>\<open>GenerateSnmprecFile\<close>\<close>

text \<open>
  The file written is the list of rows handed to \<open>csv.writer.writerow\<close>, each row the list
  of its cells (the writer itself is a library). \<open>None\<close> means that no file was opened.
  Opening the output file is assumed to succeed.
\<close>

datatype csv_cell = StrCell string | IntCell int

definition GenerateSnmprecFile ::
  "SnmpsimRecord list \<Rightarrow> string \<Rightarrow> csv_cell list list option \<times> string list" where
  "GenerateSnmprecFile listSnmpsimRecords outputPath =
     (if outputPath = [] then
        (None, [''[ERROR]|GenerateSnmprecFile|Exception:Output file path is an empty string''])
      else if listSnmpsimRecords = [] then
        (None, [''[ERROR]|GenerateSnmprecFile|Exception:List passed as argument is empty''])
      else
        (Some (map (\<lambda>snmpsimRecord.
                      [StrCell (rec_oid snmpsimRecord),
                       IntCell (rec_oidType snmpsimRecord),
                       StrCell (rec_value snmpsimRecord)])
                 listSnmpsimRecords),
         [''[INFO]|GenerateSnmprecFile|File '' @ outputPath @ '' generated successfully'']))"

definition main_convert_and_generate ::
  "QADeviceSimulatorDefinition list \<Rightarrow> string \<Rightarrow> csv_cell list list option" where
  \<comment> \<open>\<open>main\<close>, from the call of \<open>ConvertSimulationFile\<close> on: \<open>not snmpsimRecords\<close> holds for
      \<open>None\<close> and for the empty list, and then \<open>SystemExit\<close> ends the run\<close>
  "main_convert_and_generate qaDeviceSimulatorDefinitions outputPath =
     (case fst (ConvertSimulationFile qaDeviceSimulatorDefinitions) of
        None \<Rightarrow> None
      | Some [] \<Rightarrow> None
      | Some (r # rs) \<Rightarrow> fst (GenerateSnmprecFile (r # rs) outputPath))"

definition rows_written :: "csv_cell list list option \<Rightarrow> csv_cell list list" where
  \<comment> \<open>the rows of the output: none when no file was written\<close>
  "rows_written f = (case f of None \<Rightarrow> [] | Some rows \<Rightarrow> rows)"

subsection \<open>\<open>ParseQADeviceSimulatorFile\<close>\<close>

text \<open>
  The XML library is outside the repository: the model starts from the parsed tree. An
  element has a tag, its XML attributes (the dictionary \<open>attrib\<close>) and its children in
  document order.
\<close>

datatype Element = Element (tag: string) (attrib: "(string \<times> string) list") (children: "Element list")

definition attrib_getitem :: "Element \<Rightarrow> string \<Rightarrow> py_error + string" where
  \<comment> \<open>\<open>element.attrib[key]\<close>\<close>
  "attrib_getitem e key =
     (case map_of (attrib e) key of None \<Rightarrow> Inl (KeyError key) | Some v \<Rightarrow> Inr v)"

definition Element_attributes :: "string list" where
  \<comment> \<open>the names \<open>getattr\<close> finds on an \<open>xml.etree.ElementTree.Element\<close> object: its data
      attributes, its methods and the special methods of the class. The object takes no
      other attribute, and an XML attribute lives in \<open>attrib\<close>, not on the object.\<close>
  "Element_attributes =
     [''tag'', ''attrib'', ''text'', ''tail'',
      ''append'', ''clear'', ''extend'', ''find'', ''findall'', ''findtext'', ''get'',
      ''getchildren'', ''getiterator'', ''insert'', ''items'', ''iter'', ''iterfind'',
      ''itertext'', ''keys'', ''makeelement'', ''remove'', ''set'',
      ''__bool__'', ''__class__'', ''__class_getitem__'', ''__copy__'', ''__deepcopy__'',
      ''__delattr__'', ''__delitem__'', ''__dir__'', ''__doc__'', ''__eq__'', ''__format__'',
      ''__ge__'', ''__getattribute__'', ''__getitem__'', ''__getstate__'', ''__gt__'',
      ''__hash__'', ''__init__'', ''__init_subclass__'', ''__le__'', ''__len__'', ''__lt__'',
      ''__module__'', ''__ne__'', ''__new__'', ''__reduce__'', ''__reduce_ex__'', ''__repr__'',
      ''__setattr__'', ''__setitem__'', ''__setstate__'', ''__sizeof__'', ''__str__'',
      ''__subclasshook__'']"

definition hasattr_Element :: "Element \<Rightarrow> string \<Rightarrow> bool" where
  \<comment> \<open>\<open>hasattr(element, name)\<close>\<close>
  "hasattr_Element e name = (name \<in> set Element_attributes)"

definition optional_attribute :: "Element \<Rightarrow> string \<Rightarrow> py_error + string option" where
  \<comment> \<open>\<open>simulationRecord.attrib[name] if hasattr(simulationRecord, name) else None\<close>\<close>
  "optional_attribute simulationRecord name =
     (if hasattr_Element simulationRecord name then
        (case attrib_getitem simulationRecord name of
           Inl e \<Rightarrow> Inl e
         | Inr v \<Rightarrow> Inr (Some v))
      else Inr None)"

definition parse_definition :: "Element \<Rightarrow> py_error + QADeviceSimulatorDefinition" where
  \<comment> \<open>the body of the loop: the keyword arguments are evaluated in the order written, the
      first exception ends the evaluation\<close>
  "parse_definition simulationRecord =
     (case attrib_getitem simulationRecord ''OID'' of Inl e \<Rightarrow> Inl e | Inr oid \<Rightarrow>
      case attrib_getitem simulationRecord ''Type'' of Inl e \<Rightarrow> Inl e | Inr type \<Rightarrow>
      case attrib_getitem simulationRecord ''ReturnValue'' of Inl e \<Rightarrow> Inl e | Inr returnValue \<Rightarrow>
      case optional_attribute simulationRecord ''LogOutput'' of Inl e \<Rightarrow> Inl e | Inr logOutput \<Rightarrow>
      case optional_attribute simulationRecord ''Comment'' of Inl e \<Rightarrow> Inl e | Inr comment \<Rightarrow>
      case optional_attribute simulationRecord ''Delay'' of Inl e \<Rightarrow> Inl e | Inr delay \<Rightarrow>
      case optional_attribute simulationRecord ''Save'' of Inl e \<Rightarrow> Inl e | Inr save \<Rightarrow>
      case optional_attribute simulationRecord ''SkipOID'' of Inl e \<Rightarrow> Inl e | Inr skipOid \<Rightarrow>
        Inr (QADeviceSimulatorDefinition_init oid type returnValue logOutput comment
               delay save skipOid))"

fun parse_loop ::
  "Element list \<Rightarrow> QADeviceSimulatorDefinition list \<Rightarrow> py_error + QADeviceSimulatorDefinition list" where
  "parse_loop [] qaDeviceSimulatorDefinitions = Inr qaDeviceSimulatorDefinitions"
| "parse_loop (simulationRecord # rest) qaDeviceSimulatorDefinitions =
     (case parse_definition simulationRecord of
        Inl e \<Rightarrow> Inl e
      | Inr qaDeviceSimulatorDefinition \<Rightarrow>
          parse_loop rest (qaDeviceSimulatorDefinitions @ [qaDeviceSimulatorDefinition]))"

definition findall_child :: "Element \<Rightarrow> string \<Rightarrow> Element list" where
  \<comment> \<open>\<open>element.findall('.Name')\<close>: the children with that tag\<close>
  "findall_child e name = filter (\<lambda>c. tag c = name) (children e)"

definition findall_grandchild :: "Element \<Rightarrow> string \<Rightarrow> string \<Rightarrow> Element list" where
  \<comment> \<open>\<open>element.findall('.Outer/Inner')\<close>\<close>
  "findall_grandchild e outer inner =
     concat (map (\<lambda>c. findall_child c inner) (findall_child e outer))"

definition listDefinitions :: "Element \<Rightarrow> Element list" where
  \<comment> \<open>the elements the loop runs over: the nested structure, else the old flat one\<close>
  "listDefinitions rootElement =
     (if length (findall_grandchild rootElement ''Definitions'' ''Definition'') = 0 then
        findall_child rootElement ''Definition''
      else findall_grandchild rootElement ''Definitions'' ''Definition'')"

definition ParseQADeviceSimulatorFile ::
  "Element \<Rightarrow> QADeviceSimulatorDefinition list option" where
  \<comment> \<open>the returned list, from the root element on; \<open>None\<close> when an exception was caught and
      printed. The informational prints are left out.\<close>
  "ParseQADeviceSimulatorFile rootElement =
     (if length (findall_grandchild rootElement ''Definitions'' ''Definition'') = 0
         \<and> length (findall_child rootElement ''Definition'') = 0 then Some []
      else
        (case parse_loop (listDefinitions rootElement) [] of
           Inl exception \<Rightarrow> None
         | Inr qaDeviceSimulatorDefinitions \<Rightarrow> Some qaDeviceSimulatorDefinitions))"

subsection \<open>\<open>ValidateAndReplaceXmlFile\<close>\<close>

text \<open>
  Both regular expressions read \<open>&#x\<close>, a group and \<open>;\<close>. The texts the group can take at
  the start of a string are listed in the order the backtracking matcher tries them;
  the first one followed by \<open>;\<close> is the match.
\<close>

definition digit_groups :: "string \<Rightarrow> string list" where
  \<comment> \<open>\<open>\d{1,2}\<close>, greedy\<close>
  "digit_groups r =
     (if 2 \<le> length r \<and> isdigit (r ! 0) \<and> isdigit (r ! 1) then [take 2 r] else []) @
     (if 1 \<le> length r \<and> isdigit (r ! 0) then [take 1 r] else [])"

definition letter_groups :: "string \<Rightarrow> string list" where
  \<comment> \<open>\<open>[a-zA-Z]|1[a-zA-Z]\<close>\<close>
  "letter_groups r =
     (if 1 \<le> length r \<and> isletter (r ! 0) then [take 1 r] else []) @
     (if 2 \<le> length r \<and> r ! 0 = CHR ''1'' \<and> isletter (r ! 1) then [take 2 r] else [])"

definition all_groups :: "string \<Rightarrow> string list" where
  \<comment> \<open>\<open>\d{1,2}|[a-zA-Z]|1[a-zA-Z]\<close>\<close>
  "all_groups r = digit_groups r @ letter_groups r"

definition match_entity :: "(string \<Rightarrow> string list) \<Rightarrow> string \<Rightarrow> (string \<times> string) option" where
  \<comment> \<open>a match of \<open>&#x(group);\<close> at the start of \<open>s\<close>: the group's text and what follows the match\<close>
  "match_entity groups s =
     (if startswith s ''&#x'' then
        (case filter (\<lambda>g. startswith (drop (3 + length g) s) '';'') (groups (drop 3 s)) of
           [] \<Rightarrow> None
         | g # _ \<Rightarrow> Some (g, drop (4 + length g) s))
      else None)"

fun re_search_entity :: "string \<Rightarrow> bool" where
  \<comment> \<open>\<open>re.search(r"&#x(\d{1,2});|&#x([a-zA-Z]|1[a-zA-Z]);", line)\<close> finds a match\<close>
  "re_search_entity [] = False"
| "re_search_entity (c # cs) =
     (case match_entity digit_groups (c # cs) of
        Some _ \<Rightarrow> True
      | None \<Rightarrow>
          (case match_entity letter_groups (c # cs) of
             Some _ \<Rightarrow> True
           | None \<Rightarrow> re_search_entity cs))"

lemma match_entity_rest:
  "match_entity groups s = Some (g, rest) \<Longrightarrow> rest = drop (4 + length g) s"
  by (auto simp: match_entity_def split: if_splits list.splits)

function sub_entities :: "string \<Rightarrow> string" where
  \<comment> \<open>\<open>re.sub(r"&#x(\d{1,2}|[a-zA-Z]|1[a-zA-Z]);", r"0\1.", line)\<close>: the matches from left
      to right, none overlapping\<close>
  "sub_entities [] = []"
| "sub_entities (c # cs) =
     (case match_entity all_groups (c # cs) of
        Some (g, rest) \<Rightarrow> ''0'' @ g @ ''.'' @ sub_entities rest
      | None \<Rightarrow> c # sub_entities cs)"
  by pat_completeness auto
termination
  by (relation "measure length") (auto dest!: match_entity_rest)

definition sanitize_line :: "string \<Rightarrow> string" where
  \<comment> \<open>the body of the loop over \<open>fileLines\<close>: the line appended to \<open>updatedLines\<close>\<close>
  "sanitize_line line = (if re_search_entity line then sub_entities line else line)"

definition ValidateAndReplaceXmlFile_lines :: "string list \<Rightarrow> string list" where
  \<comment> \<open>\<open>updatedLines\<close> for the lines of an existing file\<close>
  "ValidateAndReplaceXmlFile_lines fileLines = map sanitize_line fileLines"

section \<open>Pipeline B: \<open>snmpwalk_to_snmpsim.py\<close>\<close>

subsection \<open>String operations\<close>

definition strip_controls :: "string \<Rightarrow> string" where
  \<comment> \<open>\<open>re.sub(r"[\n\t\f\v]*", "", line)\<close>: every newline, tab, form feed and vertical tab
      is deleted\<close>
  "strip_controls line =
     filter (\<lambda>c. c \<notin> set [CHR 0x0A, CHR 0x09, CHR 0x0C, CHR 0x0B]) line"

definition isprintable_char :: "char \<Rightarrow> bool" where
  \<comment> \<open>code points below 256: not printable are the controls 0-31 and 127-159, the
      no-break space 160 and the soft hyphen 173\<close>
  "isprintable_char c =
     (let n = (of_char c :: nat) in (32 \<le> n \<and> n \<le> 126) \<or> (161 \<le> n \<and> n \<noteq> 173))"

definition isprintable :: "string \<Rightarrow> bool" where
  \<comment> \<open>\<open>s.isprintable()\<close>\<close>
  "isprintable s = list_all isprintable_char s"

fun find_from :: "nat \<Rightarrow> string \<Rightarrow> string \<Rightarrow> int" where
  "find_from i [] sub = (if sub = [] then int i else - 1)"
| "find_from i (c # cs) sub =
     (if startswith (c # cs) sub then int i else find_from (Suc i) cs sub)"

definition find_str :: "string \<Rightarrow> string \<Rightarrow> int" where
  \<comment> \<open>\<open>s.find(sub)\<close>: the lowest index where \<open>sub\<close> starts, or -1\<close>
  "find_str s sub = find_from 0 s sub"

definition partition_str :: "string \<Rightarrow> string \<Rightarrow> string \<times> string \<times> string" where
  \<comment> \<open>\<open>s.partition(sep)\<close> for a non-empty \<open>sep\<close>\<close>
  "partition_str s sep =
     (let i = find_str s sep in
      if i = - 1 then (s, [], [])
      else (take (nat i) s, sep, drop (nat i + length sep) s))"

definition keep_numeric :: "string \<Rightarrow> string" where
  \<comment> \<open>\<open>re.sub('[^-?\d+\.]', "", x)\<close>: the class is negated and holds \<open>-\<close>, \<open>?\<close>, the digits,
      \<open>+\<close> and \<open>.\<close>, so these characters stay and every other one is deleted\<close>
  "keep_numeric x = filter (\<lambda>c. c \<in> set ''-?+.'' \<or> isdigit c) x"

fun str_nat :: "nat \<Rightarrow> string" where
  "str_nat n =
     (if n < 10 then [''0123456789'' ! n]
      else str_nat (n div 10) @ [''0123456789'' ! (n mod 10)])"

declare str_nat.simps [simp del]

definition str_int :: "int \<Rightarrow> string" where
  \<comment> \<open>\<open>str(i)\<close> for a Python integer\<close>
  "str_int i = (if i < 0 then ''-'' @ str_nat (nat (- i)) else str_nat (nat i))"

subsection \<open>Floating point\<close>

text \<open>
  A Python \<open>float\<close> is an IEEE 754 binary64 number. \<open>Finite neg m e\<close> stands for
  \<open>m * 2 ^ e\<close>, negated when \<open>neg\<close> holds, and \<open>Infinity neg\<close> for an infinity. Conversion
  from a decimal string and multiplication both round the exact result to the nearest
  representable number, ties to the even significand (53 bits, least exponent -1074), and
  give an infinity from \<open>2 ^ 1024\<close> on. No NaN arises from the operations used here.
\<close>

datatype py_float = Finite bool nat int | Infinity bool

definition floor_log2_ratio :: "nat \<Rightarrow> nat \<Rightarrow> int" where
  \<comment> \<open>\<open>\<lfloor>log\<^sub>2 (n / d)\<rfloor>\<close> for positive \<open>n\<close> and \<open>d\<close>, from the bit lengths\<close>
  "floor_log2_ratio n d =
     (let k = int (floorlog 2 n) - int (floorlog 2 d) in
      if (if 0 \<le> k then d * 2 ^ nat k \<le> n else d \<le> n * 2 ^ nat (- k)) then k else k - 1)"

definition round_half_even :: "nat \<Rightarrow> nat \<Rightarrow> nat" where
  \<comment> \<open>\<open>num / den\<close> rounded to the nearest integer, a tie to the even one\<close>
  "round_half_even num den =
     (let q = num div den; r = num mod den in
      if den < 2 * r \<or> (2 * r = den \<and> odd q) then q + 1 else q)"

definition round_to_double :: "bool \<Rightarrow> nat \<Rightarrow> nat \<Rightarrow> py_float" where
  \<comment> \<open>the binary64 number nearest to \<open>n / d\<close> (\<open>d\<close> positive), with the sign \<open>neg\<close>\<close>
  "round_to_double neg n d =
     (if n = 0 then Finite neg 0 0
      else
        let e = max (floor_log2_ratio n d - 52) (- 1074);
            m = (if 0 \<le> e then round_half_even n (d * 2 ^ nat e)
                 else round_half_even (n * 2 ^ nat (- e)) d)
        in if 971 < e \<or> (e = 971 \<and> 2 ^ 53 \<le> m) then Infinity neg else Finite neg m e)"

definition digits_value :: "string \<Rightarrow> nat" where
  "digits_value ds = foldl (\<lambda>n c. 10 * n + (of_char c - 48)) 0 ds"

definition parse_decimal :: "string \<Rightarrow> (bool \<times> nat \<times> nat) option" where
  \<comment> \<open>the strings \<open>float\<close> accepts among those made of \<open>-\<close>, \<open>?\<close>, \<open>+\<close>, \<open>.\<close> and digits: an
      optional sign, then digits with an optional point, at least one digit. The result is
      the sign, the digits read as one integer and the number of digits after the point.\<close>
  "parse_decimal s =
     (let (neg, body) =
            (case s of
               [] \<Rightarrow> (False, [])
             | c # r \<Rightarrow>
                 if c = CHR ''-'' then (True, r)
                 else if c = CHR ''+'' then (False, r)
                 else (False, s));
          ip = takeWhile isdigit body;
          rest = dropWhile isdigit body
      in case rest of
           [] \<Rightarrow> if ip = [] then None else Some (neg, digits_value ip, 0)
         | c # fp \<Rightarrow>
             if c = CHR ''.'' \<and> list_all isdigit fp \<and> (ip \<noteq> [] \<or> fp \<noteq> [])
             then Some (neg, digits_value (ip @ fp), length fp)
             else None)"

definition float_of_str :: "string \<Rightarrow> py_error + py_float" where
  \<comment> \<open>\<open>float(s)\<close>\<close>
  "float_of_str s =
     (case parse_decimal s of
        None \<Rightarrow> Inl ValueError
      | Some (neg, n, k) \<Rightarrow> Inr (round_to_double neg n (10 ^ k)))"

definition float_times_ten :: "py_float \<Rightarrow> py_float" where
  \<comment> \<open>\<open>x * 10\<close>\<close>
  "float_times_ten x =
     (case x of
        Infinity neg \<Rightarrow> Infinity neg
      | Finite neg m e \<Rightarrow>
          if 0 \<le> e then round_to_double neg (10 * m * 2 ^ nat e) 1
          else round_to_double neg (10 * m) (2 ^ nat (- e)))"

definition int_of_float :: "py_float \<Rightarrow> py_error + int" where
  \<comment> \<open>\<open>int(x)\<close>: truncation towards zero\<close>
  "int_of_float x =
     (case x of
        Infinity neg \<Rightarrow> Inl OverflowError
      | Finite neg m e \<Rightarrow>
          (let a = (if 0 \<le> e then m * 2 ^ nat e else m div 2 ^ nat (- e)) in
           Inr (if neg then - int a else int a)))"

subsection \<open>The loop of \<open>main\<close>\<close>

text \<open>
  The state of the loop: the carried \<open>previousLine\<close>, the line counter and the output file,
  which is the list of the strings written, in order; each was written with a newline
  after it. The lines of the input are the strings the file iteration yields.
\<close>

record walk_state =
  previousLine :: string
  lineCount :: nat
  outTextFile :: "string list"

definition has_oid_prefix :: "string \<Rightarrow> bool" where
  "has_oid_prefix lineUpdated =
     (startswith lineUpdated ''.1.3.6.'' \<or> startswith lineUpdated ''1.3.6.'')"

definition has_unit :: "string \<Rightarrow> bool" where
  "has_unit lineUpdated =
     (find_str lineUpdated ''TenthdBmV'' \<noteq> - 1 \<or> find_str lineUpdated ''TenthdB'' \<noteq> - 1)"

definition has_no_such_object :: "string \<Rightarrow> bool" where
  "has_no_such_object lineUpdated =
     (find_str lineUpdated ''No Such Object available on this agent at this OID'' \<noteq> - 1)"

definition rewrite_unit :: "string \<Rightarrow> py_error + string" where
  \<comment> \<open>the new \<open>lineUpdated\<close> of a line with a unit, or the exception of \<open>float\<close> or \<open>int\<close>\<close>
  "rewrite_unit lineUpdated =
     (let linePartitioned = partition_str lineUpdated ''INTEGER:'' in
      case float_of_str (keep_numeric (snd (snd linePartitioned))) of
        Inl e \<Rightarrow> Inl e
      | Inr rawValue \<Rightarrow>
          (case int_of_float (float_times_ten rawValue) of
             Inl e \<Rightarrow> Inl e
           | Inr v \<Rightarrow>
               Inr (fst linePartitioned @ fst (snd linePartitioned) @ '' '' @ str_int v)))"

definition process_line :: "walk_state \<Rightarrow> string \<Rightarrow> py_error + walk_state" where
  \<comment> \<open>the body of the loop for one line\<close>
  "process_line s line =
     (let s1 = s\<lparr>lineCount := lineCount s + 1\<rparr>;
          lineUpdated = strip_controls line
      in
        if \<not> isprintable lineUpdated then Inr s1
        else
          let stitched = \<not> has_oid_prefix lineUpdated;
              lineUpdated2 = (if stitched then previousLine s1 @ lineUpdated else lineUpdated);
              s2 = (if stitched then s1\<lparr>previousLine := lineUpdated2\<rparr> else s1)
          in
            if has_unit lineUpdated2 then
              (case rewrite_unit lineUpdated2 of
                 Inl e \<Rightarrow> Inl e
               | Inr lineUpdated3 \<Rightarrow>
                   Inr (s2\<lparr>outTextFile := outTextFile s2 @ [lineUpdated3],
                           previousLine := lineUpdated3\<rparr>))
            else if has_no_such_object lineUpdated2 then Inr s2
            else
              Inr (s2\<lparr>outTextFile := outTextFile s2 @ [previousLine s2],
                      previousLine := lineUpdated2\<rparr>))"

fun main_loop :: "walk_state \<Rightarrow> string list \<Rightarrow> walk_state \<times> py_error option" where
  \<comment> \<open>the loop over the lines. An exception leaves the loop and the program; the output
      file then holds what was written before.\<close>
  "main_loop s [] = (s, None)"
| "main_loop s (line # rest) =
     (case process_line s line of
        Inl e \<Rightarrow> (s, Some e)
      | Inr s' \<Rightarrow> main_loop s' rest)"

definition initial_state :: walk_state where
  "initial_state = \<lparr>previousLine = [], lineCount = 0, outTextFile = []\<rparr>"

definition main_output :: "string list \<Rightarrow> string list" where
  \<comment> \<open>the strings in the output file when \<open>main\<close> has ended; nothing is written after the
      loop\<close>
  "main_output inTextFile = outTextFile (fst (main_loop initial_state inTextFile))"

subsection \<open>The paths through the loop body\<close>

definition stitched_line :: "walk_state \<Rightarrow> string \<Rightarrow> string" where
  \<comment> \<open>\<open>lineUpdated\<close> after the prefix test: the stripped line, stitched onto \<open>previousLine\<close>
      when it has no OID prefix\<close>
  "stitched_line s line =
     (if has_oid_prefix (strip_controls line) then strip_controls line
      else previousLine s @ strip_controls line)"

definition is_dropped :: "string \<Rightarrow> bool" where
  \<comment> \<open>the line is skipped with no write and no change of \<open>previousLine\<close>: it is not
      printable, or it starts with an OID prefix and holds the absent-object marker and no
      unit\<close>
  "is_dropped line =
     (\<not> isprintable (strip_controls line) \<or>
      (has_oid_prefix (strip_controls line) \<and>
       \<not> has_unit (strip_controls line) \<and>
       has_no_such_object (strip_controls line)))"

definition reaches_step6 :: "walk_state \<Rightarrow> string \<Rightarrow> bool" where
  \<comment> \<open>the line takes the last \<open>else\<close> branch: printable, no unit, no absent-object marker\<close>
  "reaches_step6 s line =
     (isprintable (strip_controls line) \<and>
      \<not> has_unit (stitched_line s line) \<and>
      \<not> has_no_such_object (stitched_line s line))"

subsection \<open>The unit rewriting as the specification words it\<close>

definition keep_numeric_spec :: "string \<Rightarrow> string" where
  \<comment> \<open>``stripping every character that is not a digit, minus sign, or decimal point''\<close>
  "keep_numeric_spec x = filter (\<lambda>c. isdigit c \<or> c = CHR ''-'' \<or> c = CHR ''.'') x"

definition rewrite_unit_spec :: "string \<Rightarrow> py_error + string" where
  \<comment> \<open>\<open>rewrite_unit\<close> with the specification's stripping in place of the program's\<close>
  "rewrite_unit_spec lineUpdated =
     (let linePartitioned = partition_str lineUpdated ''INTEGER:'' in
      case float_of_str (keep_numeric_spec (snd (snd linePartitioned))) of
        Inl e \<Rightarrow> Inl e
      | Inr rawValue \<Rightarrow>
          (case int_of_float (float_times_ten rawValue) of
             Inl e \<Rightarrow> Inl e
           | Inr v \<Rightarrow>
               Inr (fst linePartitioned @ fst (snd linePartitioned) @ '' '' @ str_int v)))"

section \<open>Example inputs\<close>

definition example_definition :: "string \<Rightarrow> string \<Rightarrow> string \<Rightarrow> QADeviceSimulatorDefinition" where
  \<comment> \<open>a definition as the parser builds it from an element with the three required attributes\<close>
  "example_definition oid type returnValue =
     QADeviceSimulatorDefinition_init oid type returnValue None None None None None"

section \<open>Properties of Pipeline A\<close>

lemma enumContainsName_iff:
  "enumContainsName enumType name = (map_of enumType name \<noteq> None)"
  by (simp add: enumContainsName_def enum_getitem_def split: option.splits)

lemma convert_loop_valid:
  "list_all (\<lambda>d. enumContainsName OidType (def_type d)) defs \<Longrightarrow>
   \<exists>new. convert_loop defs acc = Inr (acc @ new) \<and>
     list_all2 (\<lambda>d r. rec_oid r = def_oid d \<and> rec_value r = def_returnValue d \<and>
                       enum_getitem OidType (def_type d) = Inr (rec_oidType r)) defs new"
proof (induction defs arbitrary: acc)
  case Nil
  then show ?case by simp
next
  case (Cons d defs)
  from Cons.prems have ok: "enumContainsName OidType (def_type d)"
    and rest: "list_all (\<lambda>d. enumContainsName OidType (def_type d)) defs"
    by simp_all
  from ok obtain code where code: "enum_getitem OidType (def_type d) = Inr code"
    by (auto simp: enumContainsName_def split: sum.splits)
  let ?r = "\<lparr>rec_oid = def_oid d, rec_oidType = code, rec_value = def_returnValue d\<rparr>"
  from Cons.IH [OF rest, of "acc @ [?r]"] obtain new where
    new: "convert_loop defs (acc @ [?r]) = Inr ((acc @ [?r]) @ new)"
    and rel: "list_all2 (\<lambda>d r. rec_oid r = def_oid d \<and> rec_value r = def_returnValue d \<and>
                       enum_getitem OidType (def_type d) = Inr (rec_oidType r)) defs new"
    by blast
  have "convert_loop (d # defs) acc = Inr (acc @ (?r # new))"
    using ok code new by simp
  moreover have "list_all2 (\<lambda>d r. rec_oid r = def_oid d \<and> rec_value r = def_returnValue d \<and>
                       enum_getitem OidType (def_type d) = Inr (rec_oidType r)) (d # defs) (?r # new)"
    using rel code by simp
  ultimately show ?case by blast
qed

lemma convert_loop_invalid:
  "list_all (\<lambda>d. enumContainsName OidType (def_type d)) pre \<Longrightarrow>
   \<not> enumContainsName OidType (def_type bad) \<Longrightarrow>
   convert_loop (pre @ bad # post) acc =
     Inl (Exception
            (''[ERROR]|ConvertSimulationFile|OID type not found for simulation record:OID:''
             @ def_oid bad @ '',OID Type:'' @ def_type bad))"
proof (induction pre arbitrary: acc)
  case Nil
  then show ?case by simp
next
  case (Cons d pre)
  from Cons.prems(1) have ok: "enumContainsName OidType (def_type d)"
    and rest: "list_all (\<lambda>d. enumContainsName OidType (def_type d)) pre"
    by simp_all
  from ok obtain code where code: "enum_getitem OidType (def_type d) = Inr code"
    by (auto simp: enumContainsName_def split: sum.splits)
  show ?case
    using ok code Cons.IH [OF rest Cons.prems(2)] by simp
qed

lemma ConvertSimulationFile_valid:
  assumes "list_all (\<lambda>d. enumContainsName OidType (def_type d)) defs"
  shows "\<exists>recs. ConvertSimulationFile defs = (Some recs, []) \<and>
     list_all2 (\<lambda>d r. rec_oid r = def_oid d \<and> rec_value r = def_returnValue d \<and>
                       enum_getitem OidType (def_type d) = Inr (rec_oidType r)) defs recs"
  using convert_loop_valid [OF assms, of "[]"]
  by (auto simp: ConvertSimulationFile_def)

text \<open>
  C1. For every list of definitions whose type names are all members of \<open>OidType\<close>,
  \<open>ConvertSimulationFile\<close> followed by \<open>GenerateSnmprecFile\<close> (with a non-empty output
  path, the emitter's own precondition) writes one row per definition, in the same order:
  the row of a definition holds its \<open>oid\<close>, the code \<open>OidType\<close> gives for its type name
  and its \<open>returnValue\<close> unchanged. \<open>list_all2\<close> says both: equal length and the relation
  position by position.
\<close>

theorem convert_then_generate_rows:
  assumes "list_all (\<lambda>d. enumContainsName OidType (def_type d)) defs"
    and "outputPath \<noteq> []"
  shows "list_all2
           (\<lambda>d row. \<exists>code. enum_getitem OidType (def_type d) = Inr code \<and>
                      row = [StrCell (def_oid d), IntCell code, StrCell (def_returnValue d)])
           defs (rows_written (main_convert_and_generate defs outputPath))"
proof -
  let ?R = "\<lambda>d r. rec_oid r = def_oid d \<and> rec_value r = def_returnValue d \<and>
                   enum_getitem OidType (def_type d) = Inr (rec_oidType r)"
  let ?cells = "\<lambda>r. [StrCell (rec_oid r), IntCell (rec_oidType r), StrCell (rec_value r)]"
  let ?Q = "\<lambda>d row. \<exists>code. enum_getitem OidType (def_type d) = Inr code \<and>
                      row = [StrCell (def_oid d), IntCell code, StrCell (def_returnValue d)]"
  from ConvertSimulationFile_valid [OF assms(1)] obtain recs where
    conv: "ConvertSimulationFile defs = (Some recs, [])" and rel: "list_all2 ?R defs recs"
    by blast
  have rows: "rows_written (main_convert_and_generate defs outputPath) = map ?cells recs"
    using conv assms(2)
    by (cases recs)
       (simp_all add: main_convert_and_generate_def GenerateSnmprecFile_def rows_written_def)
  have "list_all2 ?Q defs (map ?cells recs)"
    unfolding list_all2_map2
    by (rule list_all2_mono [OF rel]) simp
  with rows show ?thesis by simp
qed

theorem convert_then_generate_rows_witness:
  "list_all (\<lambda>d. enumContainsName OidType (def_type d))
     [example_definition ''.1.3.6.1.2.1.1.3.0'' ''TimeTicks'' ''1200'',
      example_definition ''.1.3.6.1.2.1.4.20.1.1'' ''IpAddress'' ''10.0.0.1'']
   \<and> ''out.snmprec'' \<noteq> []
   \<and> rows_written (main_convert_and_generate
        [example_definition ''.1.3.6.1.2.1.1.3.0'' ''TimeTicks'' ''1200'',
         example_definition ''.1.3.6.1.2.1.4.20.1.1'' ''IpAddress'' ''10.0.0.1'']
        ''out.snmprec'')
     = [[StrCell ''.1.3.6.1.2.1.1.3.0'', IntCell 67, StrCell ''1200''],
        [StrCell ''.1.3.6.1.2.1.4.20.1.1'', IntCell 64, StrCell ''10.0.0.1'']]"
proof -
  let ?defs = "[example_definition ''.1.3.6.1.2.1.1.3.0'' ''TimeTicks'' ''1200'',
      example_definition ''.1.3.6.1.2.1.4.20.1.1'' ''IpAddress'' ''10.0.0.1'']"
  have valid: "list_all (\<lambda>d. enumContainsName OidType (def_type d)) ?defs"
    by (simp add: enumContainsName_iff OidType_def example_definition_def
        QADeviceSimulatorDefinition_init_def)
  have path: "''out.snmprec'' \<noteq> []" by simp
  from convert_then_generate_rows [OF valid path]
  have "rows_written (main_convert_and_generate ?defs ''out.snmprec'')
     = [[StrCell ''.1.3.6.1.2.1.1.3.0'', IntCell 67, StrCell ''1200''],
        [StrCell ''.1.3.6.1.2.1.4.20.1.1'', IntCell 64, StrCell ''10.0.0.1'']]"
    by (auto simp: list_all2_Cons1 enum_getitem_def OidType_def example_definition_def
        QADeviceSimulatorDefinition_init_def)
  with valid path show ?thesis by blast
qed

text \<open>
  C5. For every list of definitions with at least one entry whose type name is no member
  of \<open>OidType\<close>, \<open>ConvertSimulationFile\<close> returns no list at all (Python's \<open>None\<close>, so the
  records mapped before the failing entry are dropped) and prints one error line naming the
  \<open>oid\<close> and the type name of the first such entry; \<open>main\<close> then writes no row.
\<close>

theorem unknown_type_aborts_batch:
  assumes "\<exists>d \<in> set defs. \<not> enumContainsName OidType (def_type d)"
  shows "\<exists>pre bad post.
           defs = pre @ bad # post \<and>
           list_all (\<lambda>d. enumContainsName OidType (def_type d)) pre \<and>
           \<not> enumContainsName OidType (def_type bad) \<and>
           ConvertSimulationFile defs =
             (None,
              [''[ERROR]|ConvertSimulationFile|Exception:''
               @ ''[ERROR]|ConvertSimulationFile|OID type not found for simulation record:OID:''
               @ def_oid bad @ '',OID Type:'' @ def_type bad]) \<and>
           main_convert_and_generate defs outputPath = None \<and>
           rows_written (main_convert_and_generate defs outputPath) = []"
proof -
  from split_list_first_prop [OF assms] obtain pre bad post where
    split: "defs = pre @ bad # post"
    and bad: "\<not> enumContainsName OidType (def_type bad)"
    and pre: "\<forall>d \<in> set pre. \<not> \<not> enumContainsName OidType (def_type d)"
    by blast
  from pre have pre': "list_all (\<lambda>d. enumContainsName OidType (def_type d)) pre"
    by (simp add: list_all_iff)
  have conv: "ConvertSimulationFile defs =
             (None,
              [''[ERROR]|ConvertSimulationFile|Exception:''
               @ ''[ERROR]|ConvertSimulationFile|OID type not found for simulation record:OID:''
               @ def_oid bad @ '',OID Type:'' @ def_type bad])"
    unfolding split ConvertSimulationFile_def convert_loop_invalid [OF pre' bad]
    by (simp add: str_error_def)
  have "main_convert_and_generate defs outputPath = None"
    by (simp add: main_convert_and_generate_def conv)
  with split pre' bad conv show ?thesis
    by (auto simp: rows_written_def)
qed

theorem unknown_type_aborts_batch_witness:
  "(\<exists>d \<in> set [example_definition ''.1.3.6.1.2.1.1.3.0'' ''TimeTicks'' ''1200'',
                example_definition ''.1.3.6.1.2.1.1.5.0'' ''Bogus'' ''router'',
                example_definition ''.1.3.6.1.2.1.1.7.0'' ''Integer32'' ''72''].
      \<not> enumContainsName OidType (def_type d))
   \<and> ConvertSimulationFile
        [example_definition ''.1.3.6.1.2.1.1.3.0'' ''TimeTicks'' ''1200'',
         example_definition ''.1.3.6.1.2.1.1.5.0'' ''Bogus'' ''router'',
         example_definition ''.1.3.6.1.2.1.1.7.0'' ''Integer32'' ''72'']
      = (None,
         [''[ERROR]|ConvertSimulationFile|Exception:[ERROR]|ConvertSimulationFile|OID type not found for simulation record:OID:.1.3.6.1.2.1.1.5.0,OID Type:Bogus''])
   \<and> main_convert_and_generate
        [example_definition ''.1.3.6.1.2.1.1.3.0'' ''TimeTicks'' ''1200'',
         example_definition ''.1.3.6.1.2.1.1.5.0'' ''Bogus'' ''router'',
         example_definition ''.1.3.6.1.2.1.1.7.0'' ''Integer32'' ''72'']
        ''out.snmprec'' = None"
proof -
  let ?defs = "[example_definition ''.1.3.6.1.2.1.1.3.0'' ''TimeTicks'' ''1200'',
         example_definition ''.1.3.6.1.2.1.1.5.0'' ''Bogus'' ''router'',
         example_definition ''.1.3.6.1.2.1.1.7.0'' ''Integer32'' ''72'']"
  have hyp: "\<exists>d \<in> set ?defs. \<not> enumContainsName OidType (def_type d)"
    by (simp add: enumContainsName_iff OidType_def example_definition_def
        QADeviceSimulatorDefinition_init_def)
  from unknown_type_aborts_batch [OF hyp, of "''out.snmprec''"]
  have none: "main_convert_and_generate ?defs ''out.snmprec'' = None"
    by blast
  have "ConvertSimulationFile ?defs
      = (None,
         [''[ERROR]|ConvertSimulationFile|Exception:[ERROR]|ConvertSimulationFile|OID type not found for simulation record:OID:.1.3.6.1.2.1.1.5.0,OID Type:Bogus''])"
    by (simp add: ConvertSimulationFile_def enumContainsName_iff enum_getitem_def OidType_def
        example_definition_def QADeviceSimulatorDefinition_init_def str_error_def)
  with hyp none show ?thesis by blast
qed



subsection \<open>The definition parser\<close>

lemma optional_attribute_None:
  "name \<in> {''LogOutput'', ''Comment'', ''Delay'', ''Save'', ''SkipOID''} \<Longrightarrow>
   optional_attribute e name = Inr None"
  by (auto simp: optional_attribute_def hasattr_Element_def Element_attributes_def)

lemma parse_definition_fields:
  assumes "parse_definition el = Inr d"
  shows "def_logOutput d = None \<and> def_comment d = None \<and>
         def_delay d = ''NA'' \<and> def_save d = ''NA'' \<and> def_skipOid d = ''NA''"
  using assms
  by (auto simp: parse_definition_def optional_attribute_None
        QADeviceSimulatorDefinition_init_def split: sum.splits)

lemma parse_loop_rel:
  "parse_loop els acc = Inr defs \<Longrightarrow>
   \<exists>new. defs = acc @ new \<and> list_all2 (\<lambda>el d. parse_definition el = Inr d) els new"
proof (induction els arbitrary: acc)
  case Nil
  then show ?case by simp
next
  case (Cons el els)
  from Cons.prems obtain d where d: "parse_definition el = Inr d"
    and rest: "parse_loop els (acc @ [d]) = Inr defs"
    by (auto split: sum.splits)
  from Cons.IH [OF rest] obtain new where
    "defs = (acc @ [d]) @ new" "list_all2 (\<lambda>el d. parse_definition el = Inr d) els new"
    by blast
  with d have "defs = acc @ (d # new) \<and>
      list_all2 (\<lambda>el d. parse_definition el = Inr d) (el # els) (d # new)"
    by simp
  then show ?case by blast
qed

lemma ParseQADeviceSimulatorFile_rel:
  assumes "ParseQADeviceSimulatorFile rootElement = Some defs"
  shows "list_all2 (\<lambda>el d. parse_definition el = Inr d) (listDefinitions rootElement) defs"
proof (cases "length (findall_grandchild rootElement ''Definitions'' ''Definition'') = 0
         \<and> length (findall_child rootElement ''Definition'') = 0")
  case True
  with assms show ?thesis
    by (simp add: ParseQADeviceSimulatorFile_def listDefinitions_def)
next
  case False
  with assms have "parse_loop (listDefinitions rootElement) [] = Inr defs"
    by (auto simp: ParseQADeviceSimulatorFile_def split: sum.splits)
  from parse_loop_rel [OF this] show ?thesis by simp
qed

text \<open>
  C7, as the claim states it, fails for \<open>LogOutput\<close> and \<open>Comment\<close>: the constructor stores
  these two arguments as they come, and for an element without them the parser passes
  \<open>None\<close>, so the fields hold \<open>None\<close> and not the string \<open>NA\<close>.
\<close>

theorem absent_LogOutput_counterexample:
  "ParseQADeviceSimulatorFile
     (Element ''Simulation'' []
        [Element ''Definition''
           [(''OID'', ''.1.3.6.1.2.1.1.5.0''), (''Type'', ''OctetString''),
            (''ReturnValue'', ''router'')] []])
   = Some [\<lparr>def_oid = ''.1.3.6.1.2.1.1.5.0'', def_type = ''OctetString'',
             def_returnValue = ''router'', def_logOutput = None, def_comment = None,
             def_delay = ''NA'', def_save = ''NA'', def_skipOid = ''NA''\<rparr>]
   \<and> def_logOutput
        \<lparr>def_oid = ''.1.3.6.1.2.1.1.5.0'', def_type = ''OctetString'',
         def_returnValue = ''router'', def_logOutput = None, def_comment = None,
         def_delay = ''NA'', def_save = ''NA'', def_skipOid = ''NA''\<rparr> \<noteq> Some ''NA''
   \<and> def_comment
        \<lparr>def_oid = ''.1.3.6.1.2.1.1.5.0'', def_type = ''OctetString'',
         def_returnValue = ''router'', def_logOutput = None, def_comment = None,
         def_delay = ''NA'', def_save = ''NA'', def_skipOid = ''NA''\<rparr> \<noteq> Some ''NA''"
  by (simp add: ParseQADeviceSimulatorFile_def listDefinitions_def findall_grandchild_def
      findall_child_def parse_definition_def attrib_getitem_def optional_attribute_None
      QADeviceSimulatorDefinition_init_def)

text \<open>
  C7, amended. For every element the parser turns into a definition, an absent \<open>Delay\<close>,
  \<open>Save\<close> or \<open>SkipOID\<close> attribute gives the string \<open>NA\<close> in the field, and an absent
  \<open>LogOutput\<close> or \<open>Comment\<close> attribute gives \<open>None\<close>. The elements and the definitions
  correspond position by position.
\<close>

theorem absent_optional_attribute_defaults:
  assumes "ParseQADeviceSimulatorFile rootElement = Some defs"
  shows "list_all2
           (\<lambda>el d.
              (map_of (attrib el) ''Delay'' = None \<longrightarrow> def_delay d = ''NA'') \<and>
              (map_of (attrib el) ''Save'' = None \<longrightarrow> def_save d = ''NA'') \<and>
              (map_of (attrib el) ''SkipOID'' = None \<longrightarrow> def_skipOid d = ''NA'') \<and>
              (map_of (attrib el) ''LogOutput'' = None \<longrightarrow> def_logOutput d = None) \<and>
              (map_of (attrib el) ''Comment'' = None \<longrightarrow> def_comment d = None))
           (listDefinitions rootElement) defs"
  by (rule list_all2_mono [OF ParseQADeviceSimulatorFile_rel [OF assms]])
     (simp add: parse_definition_fields)

theorem absent_optional_attribute_defaults_witness:
  "ParseQADeviceSimulatorFile
     (Element ''Simulation'' []
        [Element ''Definitions'' []
           [Element ''Definition''
              [(''OID'', ''.1.3.6.1.2.1.1.3.0''), (''Type'', ''TimeTicks''),
               (''ReturnValue'', ''1200'')] []]])
   = Some [example_definition ''.1.3.6.1.2.1.1.3.0'' ''TimeTicks'' ''1200'']
   \<and> map_of [(''OID'', ''.1.3.6.1.2.1.1.3.0''), (''Type'', ''TimeTicks''),
              (''ReturnValue'', ''1200'')] ''Delay'' = None
   \<and> def_delay (example_definition ''.1.3.6.1.2.1.1.3.0'' ''TimeTicks'' ''1200'') = ''NA''
   \<and> def_save (example_definition ''.1.3.6.1.2.1.1.3.0'' ''TimeTicks'' ''1200'') = ''NA''
   \<and> def_skipOid (example_definition ''.1.3.6.1.2.1.1.3.0'' ''TimeTicks'' ''1200'') = ''NA''
   \<and> def_logOutput (example_definition ''.1.3.6.1.2.1.1.3.0'' ''TimeTicks'' ''1200'') = None
   \<and> def_comment (example_definition ''.1.3.6.1.2.1.1.3.0'' ''TimeTicks'' ''1200'') = None"
proof -
  let ?root = "Element ''Simulation'' []
        [Element ''Definitions'' []
           [Element ''Definition''
              [(''OID'', ''.1.3.6.1.2.1.1.3.0''), (''Type'', ''TimeTicks''),
               (''ReturnValue'', ''1200'')] []]]"
  let ?d = "example_definition ''.1.3.6.1.2.1.1.3.0'' ''TimeTicks'' ''1200''"
  have parsed: "ParseQADeviceSimulatorFile ?root = Some [?d]"
    by (simp add: ParseQADeviceSimulatorFile_def listDefinitions_def findall_grandchild_def
        findall_child_def parse_definition_def attrib_getitem_def optional_attribute_None
        example_definition_def)
  have elems: "listDefinitions ?root =
      [Element ''Definition''
              [(''OID'', ''.1.3.6.1.2.1.1.3.0''), (''Type'', ''TimeTicks''),
               (''ReturnValue'', ''1200'')] []]"
    by (simp add: listDefinitions_def findall_grandchild_def findall_child_def)
  from absent_optional_attribute_defaults [OF parsed]
  have "def_delay ?d = ''NA'' \<and> def_save ?d = ''NA'' \<and> def_skipOid ?d = ''NA'' \<and>
        def_logOutput ?d = None \<and> def_comment ?d = None"
    unfolding elems by simp
  with parsed show ?thesis by simp
qed

subsection \<open>The entity sanitizer\<close>

lemma match_entity_not_amp:
  "CHR ''&'' \<noteq> c \<Longrightarrow> match_entity groups (c # cs) = None"
  by (auto simp: match_entity_def startswith_def)

lemma sub_entities_prefix:
  "CHR ''&'' \<notin> set p \<Longrightarrow> sub_entities (p @ t) = p @ sub_entities t"
  by (induction p) (simp_all add: match_entity_not_amp)

lemma not_digit_semicolon: "\<not> isdigit CHR '';''" and not_letter_semicolon: "\<not> isletter CHR '';''"
  by (simp_all add: isdigit_def isletter_def)

lemma match_entity_single:
  assumes "isdigit c \<or> isletter c"
  shows "match_entity all_groups (''&#x'' @ [c] @ '';'' @ s) = Some ([c], s)"
  using assms
  by (auto simp: match_entity_def startswith_def all_groups_def digit_groups_def
        letter_groups_def not_digit_semicolon not_letter_semicolon)

lemma match_entity_single_search:
  assumes "isdigit c \<or> isletter c"
  shows "match_entity digit_groups (''&#x'' @ [c] @ '';'' @ s) \<noteq> None \<or>
         match_entity letter_groups (''&#x'' @ [c] @ '';'' @ s) \<noteq> None"
  using assms
  by (auto simp: match_entity_def startswith_def digit_groups_def
        letter_groups_def not_digit_semicolon not_letter_semicolon)

lemma re_search_entity_single:
  assumes "isdigit c \<or> isletter c"
  shows "re_search_entity (p @ ''&#x'' @ [c] @ '';'' @ s)"
proof (induction p)
  case Nil
  from match_entity_single_search [OF assms, of s] show ?case
    by (auto split: option.splits)
next
  case (Cons a p)
  then show ?case by (simp split: option.splits)
qed

text \<open>
  C4 fails on the program. The docstring of \<open>ValidateAndReplaceXmlFile\<close> says that
  \<open>&#x00;\<close> is replaced with \<open>00.\<close>, two characters and a dot, as the claim does. The
  template of the program, \<open>0\1.\<close>, writes the character \<open>0\<close>, the whole captured text and a
  dot, so a two-character capture gives three characters before the dot: \<open>&#x00;\<close> becomes
  \<open>000.\<close> and \<open>&#x1D;\<close> becomes \<open>01D.\<close>.
\<close>

theorem entity_two_characters_rewrite:
  "sanitize_line ''&#x1D;'' = ''01D.'' \<and> sanitize_line ''&#x1D;'' \<noteq> ''0D.'' \<and>
   sanitize_line ''&#x00;'' = ''000.'' \<and> sanitize_line ''&#x00;'' \<noteq> ''00.''"
  by (simp add: sanitize_line_def match_entity_def startswith_def digit_groups_def
      letter_groups_def all_groups_def isdigit_def isletter_def)

text \<open>
  Where the program does give two characters and a dot: a match whose captured text is one
  character (a digit or a letter) is rewritten to \<open>0\<close>, that character and a dot; so for
  the first entity of a line (no \<open>&\<close> before it), with the rest of the line rewritten in the
  same way; \<open>&#x5;\<close> becomes \<open>05.\<close>; and a line in which the search finds no entity is
  passed on unchanged.
\<close>

theorem entity_single_character_rewrite:
  "((isdigit c \<or> isletter c) \<and> CHR ''&'' \<notin> set p \<longrightarrow>
      sanitize_line (p @ ''&#x'' @ [c] @ '';'' @ s) = p @ ''0'' @ [c] @ ''.'' @ sub_entities s)
   \<and> (\<not> re_search_entity line \<longrightarrow> sanitize_line line = line)
   \<and> sanitize_line ''&#x5;'' = ''05.''"
proof (intro conjI impI)
  assume h: "(isdigit c \<or> isletter c) \<and> CHR ''&'' \<notin> set p"
  then have found: "re_search_entity (p @ ''&#x'' @ [c] @ '';'' @ s)"
    using re_search_entity_single [of c p s] by blast
  have one: "sub_entities (''&#x'' @ [c] @ '';'' @ s) = ''0'' @ [c] @ ''.'' @ sub_entities s"
    using match_entity_single [of c s] h by simp
  from h have "sub_entities (p @ ''&#x'' @ [c] @ '';'' @ s) = p @ sub_entities (''&#x'' @ [c] @ '';'' @ s)"
    by (intro sub_entities_prefix) simp
  with one have "sub_entities (p @ ''&#x'' @ [c] @ '';'' @ s) = p @ ''0'' @ [c] @ ''.'' @ sub_entities s"
    by (simp only:)
  with found show "sanitize_line (p @ ''&#x'' @ [c] @ '';'' @ s) = p @ ''0'' @ [c] @ ''.'' @ sub_entities s"
    by (simp only: sanitize_line_def if_True)
next
  assume "\<not> re_search_entity line"
  then show "sanitize_line line = line" by (simp add: sanitize_line_def)
next
  show "sanitize_line ''&#x5;'' = ''05.''"
    by (simp add: sanitize_line_def match_entity_def startswith_def digit_groups_def
        letter_groups_def all_groups_def isdigit_def isletter_def)
qed

theorem entity_single_character_rewrite_example:
  "(isdigit CHR ''A'' \<or> isletter CHR ''A'') \<and> CHR ''&'' \<notin> set ''<D v=''
   \<and> sanitize_line (''<D v='' @ ''&#x'' @ [CHR ''A''] @ '';'' @ ''/>'') = ''<D v=0A./>''
   \<and> \<not> re_search_entity ''<D v=7/>''
   \<and> sanitize_line ''<D v=7/>'' = ''<D v=7/>''"
proof -
  have h1: "(isdigit CHR ''A'' \<or> isletter CHR ''A'') \<and> CHR ''&'' \<notin> set ''<D v=''"
    by (simp add: isdigit_def isletter_def)
  have h2: "\<not> re_search_entity ''<D v=7/>''"
    by (simp add: match_entity_def startswith_def)
  have rest: "sub_entities ''/>'' = ''/>''"
    by (simp add: match_entity_def startswith_def)
  from entity_single_character_rewrite [of "CHR ''A''" "''<D v=''" "''/>''" "''<D v=7/>''"] h1 h2 rest
  show ?thesis by simp
qed

section \<open>Lemmas on the loop of Pipeline B\<close>

lemma process_line_dropped:
  "is_dropped line \<Longrightarrow> process_line s line = Inr (s\<lparr>lineCount := lineCount s + 1\<rparr>)"
  by (auto simp: is_dropped_def process_line_def Let_def)

lemma process_line_step6:
  assumes "reaches_step6 s line"
  shows "process_line s line =
     Inr (s\<lparr>previousLine := stitched_line s line,
            lineCount := lineCount s + 1,
            outTextFile := outTextFile s @
              [if has_oid_prefix (strip_controls line) then previousLine s
               else previousLine s @ strip_controls line]\<rparr>)"
  using assms
  by (auto simp: reaches_step6_def stitched_line_def process_line_def Let_def)

lemma process_line_unit:
  assumes "isprintable (strip_controls line)" and "has_unit (stitched_line s line)"
    and "rewrite_unit (stitched_line s line) = Inr new"
  shows "process_line s line =
     Inr (s\<lparr>previousLine := new, lineCount := lineCount s + 1,
            outTextFile := outTextFile s @ [new]\<rparr>)"
  using assms
  by (auto simp: stitched_line_def process_line_def Let_def)

lemma main_loop_append:
  "main_loop s (xs @ ys) =
     (case main_loop s xs of (s', None) \<Rightarrow> main_loop s' ys | (s', Some e) \<Rightarrow> (s', Some e))"
  by (induction xs arbitrary: s) (auto split: sum.splits)

lemma process_line_out:
  "process_line s l = Inr s' \<Longrightarrow> \<exists>w. outTextFile s' = outTextFile s @ w"
  by (auto simp: process_line_def Let_def split: if_splits sum.splits)

lemma main_loop_out:
  "\<exists>w. outTextFile (fst (main_loop s ls)) = outTextFile s @ w"
proof (induction ls arbitrary: s)
  case Nil
  then show ?case by simp
next
  case (Cons l ls)
  show ?case
  proof (cases "process_line s l")
    case (Inl e)
    then show ?thesis by simp
  next
    case (Inr s')
    from process_line_out [OF Inr] obtain w1 where w1: "outTextFile s' = outTextFile s @ w1"
      by blast
    from Cons.IH [of s'] obtain w2 where
      "outTextFile (fst (main_loop s' ls)) = outTextFile s' @ w2" by blast
    with w1 Inr show ?thesis by simp
  qed
qed

lemma main_loop_dropped:
  "\<forall>l \<in> set skipped. is_dropped l \<Longrightarrow>
   main_loop s (skipped @ ls) = main_loop (s\<lparr>lineCount := lineCount s + length skipped\<rparr>) ls"
proof (induction skipped arbitrary: s)
  case Nil
  then show ?case by simp
next
  case (Cons l skipped)
  then have "process_line s l = Inr (s\<lparr>lineCount := lineCount s + 1\<rparr>)"
    by (simp add: process_line_dropped)
  moreover from Cons have
    "main_loop (s\<lparr>lineCount := lineCount s + 1\<rparr>) (skipped @ ls) =
     main_loop (s\<lparr>lineCount := lineCount s + 1\<rparr>
                 \<lparr>lineCount := lineCount (s\<lparr>lineCount := lineCount s + 1\<rparr>) + length skipped\<rparr>) ls"
    by simp
  ultimately show ?case by simp
qed

subsection \<open>Evaluation on concrete lines\<close>

lemmas line_tests = has_unit_def has_no_such_object_def find_str_def startswith_def
  has_oid_prefix_def isprintable_def isprintable_char_def strip_controls_def

lemma find_from_found:
  "find_from i s sub \<noteq> - 1 \<Longrightarrow>
   int i \<le> find_from i s sub \<and> startswith (drop (nat (find_from i s sub) - i) s) sub"
proof (induction s arbitrary: i)
  case Nil
  then show ?case by (simp add: startswith_def split: if_splits)
next
  case (Cons c cs)
  show ?case
  proof (cases "startswith (c # cs) sub")
    case True
    then show ?thesis by simp
  next
    case False
    with Cons.prems have found: "find_from (Suc i) cs sub \<noteq> - 1" by simp
    from Cons.IH [OF found] have le: "int (Suc i) \<le> find_from (Suc i) cs sub"
      and st: "startswith (drop (nat (find_from (Suc i) cs sub) - Suc i) cs) sub"
      by simp_all
    from le have "nat (find_from (Suc i) cs sub) - i = Suc (nat (find_from (Suc i) cs sub) - Suc i)"
      by linarith
    with False le st show ?thesis by simp
  qed
qed

lemma partition_str_found:
  assumes "find_str s sep \<noteq> - 1"
  shows "\<exists>a c. partition_str s sep = (a, sep, c) \<and> s = a @ sep @ c"
proof -
  let ?k = "nat (find_str s sep)"
  from find_from_found [of 0 s sep] assms have st: "startswith (drop ?k s) sep"
    by (simp add: find_str_def)
  then have "drop ?k s = sep @ drop (length sep) (drop ?k s)"
    by (metis append_take_drop_id startswith_def)
  then have "s = take ?k s @ sep @ drop (?k + length sep) s"
    by (metis add.commute append_take_drop_id drop_drop)
  moreover have "partition_str s sep = (take ?k s, sep, drop (?k + length sep) s)"
    using assms by (simp add: partition_str_def Let_def)
  ultimately show ?thesis by blast
qed

lemma keep_numeric_spec_eq:
  "CHR ''?'' \<notin> set x \<Longrightarrow> CHR ''+'' \<notin> set x \<Longrightarrow> keep_numeric x = keep_numeric_spec x"
  unfolding keep_numeric_def keep_numeric_spec_def
  by (rule filter_cong) auto

lemma floorlog_examples:
  "floorlog 2 (123::nat) = 7" "floorlog 2 (10::nat) = 4"
  "floorlog 2 (69242844270821380::nat) = 56" "floorlog 2 (562949953421312::nat) = 50"
  by (simp_all add: compute_floorlog)

lemma float_of_str_12_3:
  "float_of_str ''12.3'' = Inr (Finite False 6924284427082138 (- 49))"
  by (simp add: float_of_str_def parse_decimal_def digits_value_def isdigit_def
      round_to_double_def floor_log2_ratio_def round_half_even_def Let_def floorlog_examples)

lemma float_times_ten_12_3:
  "float_times_ten (Finite False 6924284427082138 (- 49)) = Finite False 8655355533852672 (- 46)"
  by (simp add: float_times_ten_def round_to_double_def floor_log2_ratio_def
      round_half_even_def Let_def floorlog_examples)

lemma int_of_float_123:
  "int_of_float (Finite False 8655355533852672 (- 46)) = Inr 123"
  by (simp add: int_of_float_def)

lemma str_int_123: "str_int 123 = ''123''"
  by (simp add: str_int_def str_nat.simps)

lemma partition_example:
  "partition_str ''.1.3.6.1 = INTEGER: 12.3 TenthdBmV'' ''INTEGER:''
   = (''.1.3.6.1 = '', ''INTEGER:'', '' 12.3 TenthdBmV'')"
  by (simp add: partition_str_def find_str_def startswith_def Let_def)

lemma partition_example_question:
  "partition_str ''.1.3.6.1 = INTEGER: 12.3? TenthdBmV'' ''INTEGER:''
   = (''.1.3.6.1 = '', ''INTEGER:'', '' 12.3? TenthdBmV'')"
  by (simp add: partition_str_def find_str_def startswith_def Let_def)

section \<open>Properties of Pipeline B\<close>

text \<open>
  C2, as the claim states it, fails for a stitched line: the prefix test has already set
  \<open>previousLine\<close> to the stitched line when the last branch writes \<open>previousLine\<close>, so the
  line written is the stitched line and not the value carried before.
\<close>

theorem stitched_line_written_counterexample:
  "reaches_step6
     \<lparr>previousLine = ''.1.3.6.1 = STRING: ab'', lineCount = 1, outTextFile = ['''']\<rparr> ''cd''
   \<and> process_line
       \<lparr>previousLine = ''.1.3.6.1 = STRING: ab'', lineCount = 1, outTextFile = ['''']\<rparr> ''cd''
     = Inr \<lparr>previousLine = ''.1.3.6.1 = STRING: abcd'', lineCount = 2,
            outTextFile = ['''', ''.1.3.6.1 = STRING: abcd'']\<rparr>
   \<and> last ['''', ''.1.3.6.1 = STRING: abcd'']
     \<noteq> previousLine
         \<lparr>previousLine = ''.1.3.6.1 = STRING: ab'', lineCount = 1, outTextFile = ['''']\<rparr>"
  by (simp add: reaches_step6_def stitched_line_def process_line_def Let_def line_tests)

text \<open>
  C2, amended. For every line that reaches the last branch, one line is written and
  afterwards \<open>previousLine\<close> is the current (possibly stitched) line. The line written is the
  value \<open>previousLine\<close> had before when the line starts with an OID prefix, and the stitched
  line itself (the old \<open>previousLine\<close> followed by the current line) when it does not.
\<close>

theorem step6_write_and_carry:
  assumes "reaches_step6 s line"
  shows "\<exists>s'. process_line s line = Inr s' \<and>
           previousLine s' = stitched_line s line \<and>
           outTextFile s' = outTextFile s @
             [if has_oid_prefix (strip_controls line) then previousLine s
              else previousLine s @ strip_controls line]"
  by (simp add: process_line_step6 [OF assms])

theorem step6_write_and_carry_witness:
  "reaches_step6
     \<lparr>previousLine = ''.1.3.6.1 = STRING: ab'', lineCount = 1, outTextFile = ['''']\<rparr>
     ''.1.3.6.2 = INTEGER: 7''
   \<and> (\<exists>s'. process_line
         \<lparr>previousLine = ''.1.3.6.1 = STRING: ab'', lineCount = 1, outTextFile = ['''']\<rparr>
         ''.1.3.6.2 = INTEGER: 7'' = Inr s' \<and>
         previousLine s' = ''.1.3.6.2 = INTEGER: 7'' \<and>
         outTextFile s' = ['''', ''.1.3.6.1 = STRING: ab''])"
proof -
  let ?s = "\<lparr>previousLine = ''.1.3.6.1 = STRING: ab'', lineCount = 1, outTextFile = ['''']\<rparr>"
  have h: "reaches_step6 ?s ''.1.3.6.2 = INTEGER: 7''"
    by (simp add: reaches_step6_def stitched_line_def line_tests)
  have p: "has_oid_prefix (strip_controls ''.1.3.6.2 = INTEGER: 7'')"
    and st: "stitched_line ?s ''.1.3.6.2 = INTEGER: 7'' = ''.1.3.6.2 = INTEGER: 7''"
    by (simp_all add: stitched_line_def line_tests)
  from step6_write_and_carry [OF h] p st h show ?thesis
    by simp
qed

text \<open>
  C3 fails on the program: a line with the absent-object marker and no OID prefix is
  stitched onto \<open>previousLine\<close> before the marker is tested, so the marker is carried and
  written with the next record.
\<close>

theorem no_such_object_stitched_and_written:
  "main_output
     [''.1.3.6.1 = STRING: abc'',
      ''No Such Object available on this agent at this OID'',
      ''.1.3.6.2 = INTEGER: 1'']
   = ['''', ''.1.3.6.1 = STRING: abcNo Such Object available on this agent at this OID'']
   \<and> has_no_such_object
       ''.1.3.6.1 = STRING: abcNo Such Object available on this agent at this OID''"
  by (simp add: main_output_def initial_state_def process_line_def Let_def line_tests)

text \<open>
  C8, as the claim states it, fails when the last line is a continuation fragment: the
  stitched record is written by the step of that very line, so the final carried
  \<open>previousLine\<close> is in the output.
\<close>

theorem stitched_last_line_written_counterexample:
  "main_loop initial_state [''.1.3.6.1 = STRING: ab'', ''cd'']
   = (\<lparr>previousLine = ''.1.3.6.1 = STRING: abcd'', lineCount = 2,
       outTextFile = ['''', ''.1.3.6.1 = STRING: abcd'']\<rparr>, None)
   \<and> reaches_step6
       \<lparr>previousLine = ''.1.3.6.1 = STRING: ab'', lineCount = 1, outTextFile = ['''']\<rparr> ''cd''
   \<and> last (main_output [''.1.3.6.1 = STRING: ab'', ''cd''])
     = previousLine (fst (main_loop initial_state [''.1.3.6.1 = STRING: ab'', ''cd'']))"
  by (simp add: main_output_def initial_state_def reaches_step6_def stitched_line_def
      process_line_def Let_def line_tests)

text \<open>
  C8, amended. When the last line of the input starts with an OID prefix and reaches the
  last branch, its step writes only the line carried before, the line itself becomes
  \<open>previousLine\<close>, and the end of the input writes nothing: the whole output is the output
  for the input without its last line, followed by the line carried before. The last
  line's own record is carried and never written.
\<close>

theorem last_record_not_flushed:
  assumes "main_loop initial_state ls = (s, None)"
    and "reaches_step6 s line"
    and "has_oid_prefix (strip_controls line)"
  shows "main_output (ls @ [line]) = main_output ls @ [previousLine s] \<and>
         previousLine (fst (main_loop initial_state (ls @ [line]))) = strip_controls line \<and>
         snd (main_loop initial_state (ls @ [line])) = None"
  using assms process_line_step6 [OF assms(2)]
  by (simp add: main_output_def main_loop_append stitched_line_def)

theorem last_record_not_flushed_witness:
  "main_loop initial_state [''.1.3.6.1 = STRING: ab'']
   = (\<lparr>previousLine = ''.1.3.6.1 = STRING: ab'', lineCount = 1, outTextFile = ['''']\<rparr>, None)
   \<and> reaches_step6
       \<lparr>previousLine = ''.1.3.6.1 = STRING: ab'', lineCount = 1, outTextFile = ['''']\<rparr>
       ''.1.3.6.2 = INTEGER: 7''
   \<and> has_oid_prefix (strip_controls ''.1.3.6.2 = INTEGER: 7'')
   \<and> main_output ([''.1.3.6.1 = STRING: ab''] @ [''.1.3.6.2 = INTEGER: 7''])
     = ['''', ''.1.3.6.1 = STRING: ab'']"
proof -
  let ?s = "\<lparr>previousLine = ''.1.3.6.1 = STRING: ab'', lineCount = 1, outTextFile = ['''']\<rparr>"
  have run: "main_loop initial_state [''.1.3.6.1 = STRING: ab''] = (?s, None)"
    by (simp add: initial_state_def process_line_def Let_def line_tests)
  have h: "reaches_step6 ?s ''.1.3.6.2 = INTEGER: 7''"
    by (simp add: reaches_step6_def stitched_line_def line_tests)
  have p: "has_oid_prefix (strip_controls ''.1.3.6.2 = INTEGER: 7'')"
    by (simp add: line_tests)
  have out: "main_output [''.1.3.6.1 = STRING: ab''] = ['''']"
    unfolding main_output_def run by simp
  from last_record_not_flushed [OF run h p] out run h p show ?thesis
    by simp
qed

text \<open>
  C10. \<open>previousLine\<close> starts as the empty string. When the first line that is not dropped
  (the lines before it are not printable, or are absent-object records) is a normal record
  with an OID prefix, the first string written to the output is the empty string, whatever
  follows: the output file begins with an empty line.
\<close>

theorem first_written_line_is_empty:
  assumes "\<forall>l \<in> set skipped. is_dropped l"
    and "isprintable (strip_controls line)"
    and "has_oid_prefix (strip_controls line)"
    and "\<not> has_unit (strip_controls line)"
    and "\<not> has_no_such_object (strip_controls line)"
  shows "\<exists>w. main_output (skipped @ line # rest) = [] # w"
proof -
  let ?s0 = "initial_state\<lparr>lineCount := lineCount initial_state + length skipped\<rparr>"
  have r6: "reaches_step6 ?s0 line"
    using assms(2-5) by (simp add: reaches_step6_def stitched_line_def)
  let ?s1 = "?s0\<lparr>previousLine := stitched_line ?s0 line,
            lineCount := lineCount ?s0 + 1,
            outTextFile := outTextFile ?s0 @
              [if has_oid_prefix (strip_controls line) then previousLine ?s0
               else previousLine ?s0 @ strip_controls line]\<rparr>"
  have step: "process_line ?s0 line = Inr ?s1"
    by (rule process_line_step6 [OF r6])
  have out1: "outTextFile ?s1 = [[]]"
    using assms(3) by (simp add: initial_state_def)
  from main_loop_out [of ?s1 rest] obtain w where
    w: "outTextFile (fst (main_loop ?s1 rest)) = outTextFile ?s1 @ w" by blast
  have "main_loop initial_state (skipped @ line # rest) = main_loop ?s1 rest"
    using main_loop_dropped [OF assms(1), of initial_state "line # rest"] step by simp
  with w out1 have "main_output (skipped @ line # rest) = [] # w"
    by (simp add: main_output_def)
  then show ?thesis by blast
qed

theorem first_written_line_is_empty_witness:
  "is_dropped [CHR 0x07]
   \<and> is_dropped ''.1.3.6.1 = No Such Object available on this agent at this OID''
   \<and> isprintable (strip_controls ''.1.3.6.2 = INTEGER: 7'')
   \<and> has_oid_prefix (strip_controls ''.1.3.6.2 = INTEGER: 7'')
   \<and> \<not> has_unit (strip_controls ''.1.3.6.2 = INTEGER: 7'')
   \<and> \<not> has_no_such_object (strip_controls ''.1.3.6.2 = INTEGER: 7'')
   \<and> (\<exists>w. main_output
         ([[CHR 0x07], ''.1.3.6.1 = No Such Object available on this agent at this OID'']
          @ ''.1.3.6.2 = INTEGER: 7'' # [''.1.3.6.3 = INTEGER: 8'']) = [] # w)
   \<and> main_output [''.1.3.6.2 = INTEGER: 7'', ''.1.3.6.3 = INTEGER: 8'']
     = ['''', ''.1.3.6.2 = INTEGER: 7'']"
proof -
  have h1: "\<forall>l \<in> set [[CHR 0x07], ''.1.3.6.1 = No Such Object available on this agent at this OID''].
      is_dropped l"
    by (simp add: is_dropped_def line_tests)
  have h2: "isprintable (strip_controls ''.1.3.6.2 = INTEGER: 7'')"
    and h3: "has_oid_prefix (strip_controls ''.1.3.6.2 = INTEGER: 7'')"
    and h4: "\<not> has_unit (strip_controls ''.1.3.6.2 = INTEGER: 7'')"
    and h5: "\<not> has_no_such_object (strip_controls ''.1.3.6.2 = INTEGER: 7'')"
    by (simp_all add: line_tests)
  have ex: "main_output [''.1.3.6.2 = INTEGER: 7'', ''.1.3.6.3 = INTEGER: 8'']
     = ['''', ''.1.3.6.2 = INTEGER: 7'']"
    by (simp add: main_output_def initial_state_def process_line_def Let_def line_tests)
  from h1 have d: "is_dropped [CHR 0x07]"
    "is_dropped ''.1.3.6.1 = No Such Object available on this agent at this OID''"
    by simp_all
  from first_written_line_is_empty [OF h1 h2 h3 h4 h5, of "[''.1.3.6.3 = INTEGER: 8'']"]
    d h2 h3 h4 h5 ex
  show ?thesis by blast
qed

text \<open>
  C9 fails on the program. The pattern \<open>[^-?\d+\.]\<close> is the number pattern \<open>-?\d+\.\<close> put
  inside a negated class: it is meant to strip all but the digits, the minus sign and the
  decimal point, as the claim says, but \<open>?\<close> and \<open>+\<close> are members of the class too and are
  kept. With the stripping of the claim the line below is rewritten to
  \<open>.1.3.6.1 = INTEGER: 123\<close>; the program keeps \<open>12.3?\<close>, \<open>float\<close> raises \<open>ValueError\<close>,
  which nothing catches, and nothing is written.
\<close>

theorem unit_question_mark_raises:
  "isprintable (strip_controls ''.1.3.6.1 = INTEGER: 12.3? TenthdBmV'')
   \<and> find_str ''.1.3.6.1 = INTEGER: 12.3? TenthdBmV'' ''TenthdBmV'' \<noteq> - 1
   \<and> rewrite_unit_spec ''.1.3.6.1 = INTEGER: 12.3? TenthdBmV'' = Inr ''.1.3.6.1 = INTEGER: 123''
   \<and> rewrite_unit ''.1.3.6.1 = INTEGER: 12.3? TenthdBmV'' = Inl ValueError
   \<and> snd (main_loop initial_state [''.1.3.6.1 = INTEGER: 12.3? TenthdBmV'']) = Some ValueError
   \<and> main_output [''.1.3.6.1 = INTEGER: 12.3? TenthdBmV''] = []"
proof -
  let ?l = "''.1.3.6.1 = INTEGER: 12.3? TenthdBmV''"
  have p: "isprintable (strip_controls ?l)" and u: "has_unit ?l"
    and st: "strip_controls ?l = ?l" and pre: "has_oid_prefix ?l"
    by (simp_all add: line_tests)
  have spec: "rewrite_unit_spec ?l = Inr ''.1.3.6.1 = INTEGER: 123''"
    by (simp add: rewrite_unit_spec_def partition_example_question keep_numeric_spec_def
        isdigit_def float_of_str_12_3 float_times_ten_12_3 int_of_float_123 str_int_123)
  have code: "rewrite_unit ?l = Inl ValueError"
    by (simp add: rewrite_unit_def partition_example_question keep_numeric_def
        isdigit_def float_of_str_def parse_decimal_def)
  have step: "process_line initial_state ?l = Inl ValueError"
    using p u pre code by (simp add: process_line_def Let_def st)
  then have "main_loop initial_state [?l] = (initial_state, Some ValueError)"
    by simp
  then have "snd (main_loop initial_state [?l]) = Some ValueError"
    and "main_output [?l] = []"
    by (simp_all add: main_output_def initial_state_def)
  moreover have "find_str ?l ''TenthdBmV'' \<noteq> - 1"
    by (simp add: line_tests)
  ultimately show ?thesis using p spec code by blast
qed

text \<open>
  What the program does on a printable line whose (possibly stitched) text contains a unit
  marker: it splits at the first \<open>INTEGER:\<close>, keeps of the remainder the members of the
  class, parses the result as a float, multiplies by 10 and truncates to an integer. When
  parsing or truncating raises, the run ends there; otherwise the text before \<open>INTEGER:\<close>,
  \<open>INTEGER:\<close>, a space and the integer make the new line, which is written at once and
  becomes \<open>previousLine\<close>. When the remainder has no question mark and no plus sign, the
  program agrees with the stripping of the claim: the line
  \<open>.1.3.6.1 = INTEGER: 12.3 TenthdBmV\<close> is written as \<open>.1.3.6.1 = INTEGER: 123\<close>.
\<close>

theorem unit_line_rewritten:
  assumes "isprintable (strip_controls line)"
    and "has_unit (stitched_line s line)"
    and "partition_str (stitched_line s line) ''INTEGER:'' = (before, sep, remainder)"
  shows "process_line s line =
     (case float_of_str (filter (\<lambda>c. isdigit c \<or> c \<in> set ''-.?+'') remainder) of
        Inl e \<Rightarrow> Inl e
      | Inr rawValue \<Rightarrow>
          (case int_of_float (float_times_ten rawValue) of
             Inl e \<Rightarrow> Inl e
           | Inr v \<Rightarrow>
               Inr (s\<lparr>previousLine := before @ sep @ '' '' @ str_int v,
                       lineCount := lineCount s + 1,
                       outTextFile := outTextFile s @ [before @ sep @ '' '' @ str_int v]\<rparr>)))
     \<and> (CHR ''?'' \<notin> set remainder \<and> CHR ''+'' \<notin> set remainder \<longrightarrow>
          rewrite_unit (stitched_line s line) = rewrite_unit_spec (stitched_line s line))"
proof -
  have k: "filter (\<lambda>c. isdigit c \<or> c \<in> set ''-.?+'') remainder = keep_numeric remainder"
    unfolding keep_numeric_def by (rule filter_cong) auto
  have "process_line s line =
     (case rewrite_unit (stitched_line s line) of
        Inl e \<Rightarrow> Inl e
      | Inr new \<Rightarrow> Inr (s\<lparr>previousLine := new, lineCount := lineCount s + 1,
            outTextFile := outTextFile s @ [new]\<rparr>))"
    using assms(1,2) by (auto simp: stitched_line_def process_line_def Let_def split: sum.splits)
  then have first: "process_line s line =
     (case float_of_str (filter (\<lambda>c. isdigit c \<or> c \<in> set ''-.?+'') remainder) of
        Inl e \<Rightarrow> Inl e
      | Inr rawValue \<Rightarrow>
          (case int_of_float (float_times_ten rawValue) of
             Inl e \<Rightarrow> Inl e
           | Inr v \<Rightarrow>
               Inr (s\<lparr>previousLine := before @ sep @ '' '' @ str_int v,
                       lineCount := lineCount s + 1,
                       outTextFile := outTextFile s @ [before @ sep @ '' '' @ str_int v]\<rparr>)))"
    unfolding k by (simp add: rewrite_unit_def assms(3) split: sum.splits)
  have "CHR ''?'' \<notin> set remainder \<and> CHR ''+'' \<notin> set remainder \<longrightarrow>
          rewrite_unit (stitched_line s line) = rewrite_unit_spec (stitched_line s line)"
    by (simp add: rewrite_unit_def rewrite_unit_spec_def assms(3) keep_numeric_spec_eq)
  with first show ?thesis by blast
qed

theorem unit_line_rewritten_example:
  "isprintable (strip_controls ''.1.3.6.1 = INTEGER: 12.3 TenthdBmV'')
   \<and> has_unit (stitched_line initial_state ''.1.3.6.1 = INTEGER: 12.3 TenthdBmV'')
   \<and> partition_str (stitched_line initial_state ''.1.3.6.1 = INTEGER: 12.3 TenthdBmV'')
       ''INTEGER:'' = (''.1.3.6.1 = '', ''INTEGER:'', '' 12.3 TenthdBmV'')
   \<and> process_line initial_state ''.1.3.6.1 = INTEGER: 12.3 TenthdBmV''
     = Inr \<lparr>previousLine = ''.1.3.6.1 = INTEGER: 123'', lineCount = 1,
            outTextFile = [''.1.3.6.1 = INTEGER: 123'']\<rparr>
   \<and> rewrite_unit_spec ''.1.3.6.1 = INTEGER: 12.3 TenthdBmV'' = Inr ''.1.3.6.1 = INTEGER: 123''
   \<and> main_output [''.1.3.6.1 = INTEGER: 12.3 TenthdBmV''] = [''.1.3.6.1 = INTEGER: 123'']"
proof -
  let ?l = "''.1.3.6.1 = INTEGER: 12.3 TenthdBmV''"
  have st: "stitched_line initial_state ?l = ?l"
    by (simp add: stitched_line_def line_tests)
  have h1: "isprintable (strip_controls ?l)"
    and h2: "has_unit (stitched_line initial_state ?l)"
    unfolding st by (simp_all add: line_tests)
  have h3: "partition_str (stitched_line initial_state ?l) ''INTEGER:''
     = (''.1.3.6.1 = '', ''INTEGER:'', '' 12.3 TenthdBmV'')"
    unfolding st by (rule partition_example)
  have kept: "filter (\<lambda>c. isdigit c \<or> c \<in> set ''-.?+'') '' 12.3 TenthdBmV'' = ''12.3''"
    by (simp add: isdigit_def)
  note rewritten = unit_line_rewritten [OF h1 h2 h3]
  from rewritten have step: "process_line initial_state ?l
     = Inr \<lparr>previousLine = ''.1.3.6.1 = INTEGER: 123'', lineCount = 1,
            outTextFile = [''.1.3.6.1 = INTEGER: 123'']\<rparr>"
    unfolding kept
    by (simp add: float_of_str_12_3 float_times_ten_12_3 int_of_float_123 str_int_123
        initial_state_def)
  have code: "rewrite_unit ?l = Inr ''.1.3.6.1 = INTEGER: 123''"
    by (simp add: rewrite_unit_def partition_example keep_numeric_def
        isdigit_def float_of_str_12_3 float_times_ten_12_3 int_of_float_123 str_int_123)
  from rewritten have spec: "rewrite_unit_spec ?l = Inr ''.1.3.6.1 = INTEGER: 123''"
    unfolding st using code by simp
  have out: "main_output [?l] = [''.1.3.6.1 = INTEGER: 123'']"
    by (simp add: main_output_def step)
  from h1 h2 h3 step spec out show ?thesis by blast
qed

end
